theory Spec2Isabelle
  imports Complex_Main "HOL-Library.Word"
begin

section \<open>JavaScript numbers\<close>

text \<open>
  The samplers compute with JavaScript numbers. A number is modelled as a finite real, one
  of the two infinities, or NaN: \<open>video.duration\<close> is NaN before metadata is known and
  \<open>+Infinity\<close> for an unbounded stream, and a division by zero yields an infinity or NaN.
  Finite values are exact reals: rounding, overflow and the sign of zero are not modelled.
  Each operation below follows the corresponding ECMAScript operation on these four kinds
  of value.
\<close>

datatype jsnum = Num real | Infinity | NegInfinity | NaN

text \<open>\<open>Math.min(a, b)\<close>: NaN if either argument is NaN, else the smaller one.\<close>

fun Math_min :: "jsnum \<Rightarrow> jsnum \<Rightarrow> jsnum" where
  "Math_min NaN _ = NaN"
| "Math_min _ NaN = NaN"
| "Math_min NegInfinity _ = NegInfinity"
| "Math_min _ NegInfinity = NegInfinity"
| "Math_min Infinity y = y"
| "Math_min x Infinity = x"
| "Math_min (Num a) (Num b) = Num (min a b)"

fun Math_ceil :: "jsnum \<Rightarrow> jsnum" where
  "Math_ceil (Num a) = Num (of_int \<lceil>a\<rceil>)"
| "Math_ceil x = x"

fun Math_floor :: "jsnum \<Rightarrow> jsnum" where
  "Math_floor (Num a) = Num (of_int \<lfloor>a\<rfloor>)"
| "Math_floor x = x"

text \<open>\<open>a * b\<close>: an infinity times zero is NaN; the sign of an infinite product is the
  product of the signs.\<close>

fun js_times :: "jsnum \<Rightarrow> jsnum \<Rightarrow> jsnum" where
  "js_times NaN _ = NaN"
| "js_times _ NaN = NaN"
| "js_times (Num a) (Num b) = Num (a * b)"
| "js_times (Num a) Infinity = (if a = 0 then NaN else if 0 < a then Infinity else NegInfinity)"
| "js_times (Num a) NegInfinity = (if a = 0 then NaN else if 0 < a then NegInfinity else Infinity)"
| "js_times Infinity (Num b) = (if b = 0 then NaN else if 0 < b then Infinity else NegInfinity)"
| "js_times NegInfinity (Num b) = (if b = 0 then NaN else if 0 < b then NegInfinity else Infinity)"
| "js_times Infinity Infinity = Infinity"
| "js_times NegInfinity NegInfinity = Infinity"
| "js_times Infinity NegInfinity = NegInfinity"
| "js_times NegInfinity Infinity = NegInfinity"

text \<open>\<open>a / b\<close>: a finite non-zero number over zero is an infinity, zero over zero and an
  infinity over an infinity are NaN, a finite number over an infinity is zero.\<close>

fun js_divide :: "jsnum \<Rightarrow> jsnum \<Rightarrow> jsnum" where
  "js_divide NaN _ = NaN"
| "js_divide _ NaN = NaN"
| "js_divide (Num a) (Num b) =
     (if b \<noteq> 0 then Num (a / b)
      else if a = 0 then NaN else if 0 < a then Infinity else NegInfinity)"
| "js_divide (Num a) Infinity = Num 0"
| "js_divide (Num a) NegInfinity = Num 0"
| "js_divide Infinity (Num b) = (if 0 \<le> b then Infinity else NegInfinity)"
| "js_divide NegInfinity (Num b) = (if 0 \<le> b then NegInfinity else Infinity)"
| "js_divide Infinity Infinity = NaN"
| "js_divide Infinity NegInfinity = NaN"
| "js_divide NegInfinity Infinity = NaN"
| "js_divide NegInfinity NegInfinity = NaN"

fun js_minus :: "jsnum \<Rightarrow> jsnum \<Rightarrow> jsnum" where
  "js_minus NaN _ = NaN"
| "js_minus _ NaN = NaN"
| "js_minus (Num a) (Num b) = Num (a - b)"
| "js_minus (Num a) Infinity = NegInfinity"
| "js_minus (Num a) NegInfinity = Infinity"
| "js_minus Infinity (Num b) = Infinity"
| "js_minus NegInfinity (Num b) = NegInfinity"
| "js_minus Infinity Infinity = NaN"
| "js_minus NegInfinity NegInfinity = NaN"
| "js_minus Infinity NegInfinity = Infinity"
| "js_minus NegInfinity Infinity = NegInfinity"

text \<open>\<open>a < b\<close> and \<open>a <= b\<close>: every comparison with NaN is false.\<close>

fun js_lt :: "jsnum \<Rightarrow> jsnum \<Rightarrow> bool" where
  "js_lt NaN _ = False"
| "js_lt _ NaN = False"
| "js_lt (Num a) (Num b) = (a < b)"
| "js_lt _ NegInfinity = False"
| "js_lt NegInfinity _ = True"
| "js_lt Infinity _ = False"
| "js_lt (Num a) Infinity = True"

fun js_le :: "jsnum \<Rightarrow> jsnum \<Rightarrow> bool" where
  "js_le NaN _ = False"
| "js_le _ NaN = False"
| "js_le (Num a) (Num b) = (a \<le> b)"
| "js_le NegInfinity _ = True"
| "js_le _ NegInfinity = False"
| "js_le _ Infinity = True"
| "js_le Infinity _ = False"

text \<open>Truthiness of a number: zero and NaN are falsy. \<open>a || b\<close> is \<open>a\<close> when \<open>a\<close> is
  truthy and \<open>b\<close> otherwise; an absent property (\<open>undefined\<close>) is falsy.\<close>

fun truthy :: "jsnum \<Rightarrow> bool" where
  "truthy (Num a) = (a \<noteq> 0)"
| "truthy NaN = False"
| "truthy _ = True"

fun js_or :: "jsnum option \<Rightarrow> jsnum \<Rightarrow> jsnum" where
  "js_or None b = b"
| "js_or (Some a) b = (if truthy a then a else b)"

section \<open>Errors and observer events\<close>

text \<open>
  Every \<open>Error\<close> the samplers throw, named after its message. \<open>FrameFailure\<close> carries the
  message of an error thrown while one frame is captured; \<open>FailedToExtractFrames\<close> is the
  server's wrapper around the error it caught.
\<close>

datatype error =
    AlreadyInProgress
  | InvalidDurationOrFrameCount
  | FailedToLoadVideo
  | FrameFailure string
  | InvalidVideoDuration
  | NoValidFrames
  | FailedToExtractFrames error

text \<open>The message of each error; the rendering of the offending duration after
  \<open>Invalid video duration:\<close> is left out.\<close>

fun message :: "error \<Rightarrow> string" where
  "message AlreadyInProgress = ''Extraction already in progress''"
| "message InvalidDurationOrFrameCount = ''Invalid video duration or frame count''"
| "message FailedToLoadVideo = ''Failed to load video''"
| "message (FrameFailure m) = m"
| "message InvalidVideoDuration = ''Invalid video duration: ''"
| "message NoValidFrames = ''No valid frames could be extracted from the video''"
| "message (FailedToExtractFrames e) = ''Failed to extract frames: '' @ message e"

text \<open>
  The calls an extractor makes to its observer slots, in order: \<open>onProgress\<close> with
  \<open>current\<close>, \<open>total\<close> and \<open>time\<close>, \<open>onComplete\<close> with the frames, \<open>onError\<close> with
  the error. A slot that holds no callback records nothing.
\<close>

datatype 'r event = Progress nat jsnum jsnum | Complete 'r | Failed error

section \<open>The first extractor (seek and capture in a loop)\<close>

record frameData =
  url :: string
  time :: jsnum

text \<open>
  The fields of the first \<open>VideoFrameExtractor\<close>. \<open>frames\<close> holds the uploaded files, each
  the frame index of its name and its blob; the three element references are kept as
  "is set"; so are the three callback slots. \<open>frameRate\<close> and \<open>maxDuration\<close> are finite
  numbers (the constructor stores 2 and 30).
\<close>

record extractor =
  frames :: "(nat \<times> string) list"
  previewFrames :: "frameData list"
  frameRate :: real
  maxDuration :: real
  isProcessing :: bool
  currentVideo :: bool
  currentCanvas :: bool
  currentCtx :: bool
  onProgress :: bool
  onComplete :: bool
  onError :: bool

definition cleanup :: "extractor \<Rightarrow> extractor" where
  "cleanup e = e\<lparr>isProcessing := False, currentVideo := False, currentCanvas := False,
     currentCtx := False, frames := [], previewFrames := []\<rparr>"

text \<open>What the browser reports for the file: whether it fires \<open>loadedmetadata\<close> (else
  \<open>error\<close>) and the value of \<open>video.duration\<close>.\<close>

record video =
  loads :: bool
  video_duration :: jsnum

text \<open>\<open>loadVideo\<close>: the capped duration and the frame count, or the rejection. The canvas
  it also sets up (320 wide) plays no part below and is left out.\<close>

definition loadVideo :: "extractor \<Rightarrow> video \<Rightarrow> error + (jsnum \<times> jsnum)" where
  "loadVideo e v =
     (if \<not> loads v then Inl FailedToLoadVideo
      else
        let duration = Math_min (video_duration v) (Num (maxDuration e));
            totalFrames = Math_min (Math_ceil (js_times duration (Num (frameRate e))))
                                   (js_times (Num (frameRate e)) (Num (maxDuration e)))
        in if js_le totalFrames (Num 0) then Inl InvalidDurationOrFrameCount
           else Inr (duration, totalFrames))"

text \<open>The target time of iteration \<open>i\<close>:
  \<open>Math.min(i * timeBetweenFrames, duration - 0.1)\<close>.\<close>

definition frame_time :: "nat \<Rightarrow> jsnum \<Rightarrow> jsnum \<Rightarrow> jsnum" where
  "frame_time i timeBetweenFrames duration =
     Math_min (js_times (Num (real i)) timeBetweenFrames) (js_minus duration (Num (1/10)))"

text \<open>
  The timestamp plan of a run: the loop \<open>for (let i = 0; i < totalFrames; i++)\<close> of
  \<open>extractFrames\<close> with only the computation of \<open>time\<close> kept. The bound is a number, not
  necessarily an integer, and the loop leaves only when \<open>i < totalFrames\<close> is false.
\<close>

partial_function (option) timestamps_loop ::
  "nat \<Rightarrow> jsnum \<Rightarrow> jsnum \<Rightarrow> jsnum \<Rightarrow> jsnum list \<Rightarrow> jsnum list option" where
  "timestamps_loop i totalFrames timeBetweenFrames duration acc =
     (if js_lt (Num (real i)) totalFrames
      then timestamps_loop (Suc i) totalFrames timeBetweenFrames duration
             (acc @ [frame_time i timeBetweenFrames duration])
      else Some acc)"

declare timestamps_loop.simps [code]

definition timestamps :: "extractor \<Rightarrow> video \<Rightarrow> (error + jsnum list) option" where
  "timestamps e v =
     (case loadVideo e v of
        Inl err \<Rightarrow> Some (Inl err)
      | Inr (duration, totalFrames) \<Rightarrow>
          map_option Inr
            (timestamps_loop 0 totalFrames (js_divide duration totalFrames) duration []))"

text \<open>
  What one capture attempt meets: a throw somewhere between the seek and the pixel read,
  or the pixels read back from the canvas (one byte per channel) together with the data
  URL and the blob (or null) the canvas encodes to.
\<close>

datatype capture = Throws | Painted "8 word list" string "string option"

text \<open>The points at which an iteration is suspended and other code can run.\<close>

datatype await_point = AtSeek | AtBlob | AtDelay

text \<open>
  The surroundings of one run: the outcome of the capture at each index, and whether
  \<open>cleanup()\<close>, the one method that clears \<open>isProcessing\<close>, is called from outside while
  the run waits for the metadata or is suspended at a given point of a given iteration.
  Every seek is taken to complete.
\<close>

record env =
  capture_at :: "nat \<Rightarrow> capture"
  cleanup_on_load :: bool
  cleanup_at :: "nat \<Rightarrow> await_point \<Rightarrow> bool"

definition interrupt :: "bool \<Rightarrow> extractor \<Rightarrow> extractor" where
  "interrupt b e = (if b then cleanup e else e)"

text \<open>\<open>!imageData.some(channel => channel !== 0)\<close>\<close>

definition isEmpty :: "8 word list \<Rightarrow> bool" where
  "isEmpty imageData = (\<not> list_ex (\<lambda>channel. channel \<noteq> 0) imageData)"

text \<open>
  The body of the loop after the \<open>isProcessing\<close> test, on the extractor and the events
  fired so far. Both \<open>continue\<close> statements (empty frame, caught error) leave the body
  before the progress callback. The \<open>timestamp\<close> text of a preview frame and the rendering
  of \<open>time\<close> to two decimals in the progress event are left out.
\<close>

definition iteration ::
  "env \<Rightarrow> nat \<Rightarrow> jsnum \<Rightarrow> jsnum \<Rightarrow> jsnum \<Rightarrow>
   extractor \<times> frameData list event list \<Rightarrow> extractor \<times> frameData list event list" where
  "iteration w i totalFrames timeBetweenFrames duration s =
     (let t = frame_time i timeBetweenFrames duration;
          e1 = interrupt (cleanup_at w i AtSeek) (fst s)
      in case capture_at w i of
           Throws \<Rightarrow> (e1, snd s)
         | Painted imageData imageUrl blob \<Rightarrow>
             if isEmpty imageData then (e1, snd s)
             else
               let e2 = e1\<lparr>previewFrames := previewFrames e1 @ [\<lparr>url = imageUrl, time = t\<rparr>]\<rparr>;
                   e3 = interrupt (cleanup_at w i AtBlob) e2;
                   e4 = (case blob of None \<Rightarrow> e3
                         | Some b \<Rightarrow> e3\<lparr>frames := frames e3 @ [(i, b)]\<rparr>);
                   evs = (if onProgress e4 then snd s @ [Progress (i + 1) totalFrames t]
                          else snd s)
               in (interrupt (cleanup_at w i AtDelay) e4, evs))"

partial_function (option) frame_loop ::
  "env \<Rightarrow> nat \<Rightarrow> jsnum \<Rightarrow> jsnum \<Rightarrow> jsnum \<Rightarrow>
   extractor \<times> frameData list event list \<Rightarrow> (extractor \<times> frameData list event list) option" where
  "frame_loop w i totalFrames timeBetweenFrames duration s =
     (if js_lt (Num (real i)) totalFrames
      then if \<not> isProcessing (fst s) then Some s
           else frame_loop w (Suc i) totalFrames timeBetweenFrames duration
                  (iteration w i totalFrames timeBetweenFrames duration s)
      else Some s)"

declare frame_loop.simps [code]

text \<open>
  \<open>extractFrames\<close>: the result of the promise, the extractor afterwards and the events
  fired. The first test throws before anything is touched; every later exit runs
  \<open>cleanup\<close> in the \<open>finally\<close> block. \<open>None\<close> is a loop that never exits.
\<close>

definition extractFrames ::
  "env \<Rightarrow> extractor \<Rightarrow> video \<Rightarrow>
   ((error + frameData list) \<times> extractor \<times> frameData list event list) option" where
  "extractFrames w e v =
     (if isProcessing e then Some (Inl AlreadyInProgress, e, [])
      else
        let e1 = e\<lparr>isProcessing := True, frames := [], previewFrames := []\<rparr>;
            e2 = interrupt (cleanup_on_load w) e1
        in case loadVideo e2 v of
             Inl err \<Rightarrow> Some (Inl err, cleanup e2, if onError e2 then [Failed err] else [])
           | Inr (duration, totalFrames) \<Rightarrow>
               let e3 = e2\<lparr>currentVideo := True, currentCanvas := True, currentCtx := True\<rparr>
               in (case frame_loop w 0 totalFrames (js_divide duration totalFrames) duration
                           (e3, []) of
                     None \<Rightarrow> None
                   | Some (e4, evs) \<Rightarrow>
                       Some (Inr (previewFrames e4), cleanup e4,
                             if onComplete e4 then evs @ [Complete (previewFrames e4)] else evs)))"

text \<open>The extractor as its constructor leaves it.\<close>

definition new_extractor :: extractor where
  "new_extractor = \<lparr>frames = [], previewFrames = [], frameRate = 2, maxDuration = 30,
     isProcessing = False, currentVideo = False, currentCanvas = False, currentCtx = False,
     onProgress = False, onComplete = False, onError = False\<rparr>"

text \<open>
  For a finite \<open>video.duration\<close> \<open>d\<close>, the values of \<open>duration\<close> and \<open>totalFrames\<close> that
  \<open>loadVideo\<close> computes, as reals (lemma \<open>loadVideo_Num\<close> below).
\<close>

definition effective :: "extractor \<Rightarrow> real \<Rightarrow> real" where
  "effective e d = min d (maxDuration e)"

definition total :: "extractor \<Rightarrow> real \<Rightarrow> real" where
  "total e d = min (of_int \<lceil>effective e d * frameRate e\<rceil>) (frameRate e * maxDuration e)"


text \<open>
  What an iteration without an outside call of \<open>cleanup\<close> adds for index \<open>i\<close>: the
  preview frame, the uploaded file and the progress event, each a list of at most one.
\<close>

definition preview_of :: "env \<Rightarrow> jsnum \<Rightarrow> jsnum \<Rightarrow> nat \<Rightarrow> frameData list" where
  "preview_of w timeBetweenFrames duration i =
     (case capture_at w i of
        Throws \<Rightarrow> []
      | Painted imageData imageUrl blob \<Rightarrow>
          if isEmpty imageData then []
          else [\<lparr>url = imageUrl, time = frame_time i timeBetweenFrames duration\<rparr>])"

definition file_of :: "env \<Rightarrow> nat \<Rightarrow> (nat \<times> string) list" where
  "file_of w i =
     (case capture_at w i of
        Throws \<Rightarrow> []
      | Painted imageData imageUrl blob \<Rightarrow>
          if isEmpty imageData then []
          else (case blob of None \<Rightarrow> [] | Some b \<Rightarrow> [(i, b)]))"

definition progress_of ::
  "env \<Rightarrow> jsnum \<Rightarrow> jsnum \<Rightarrow> jsnum \<Rightarrow> nat \<Rightarrow> frameData list event list" where
  "progress_of w totalFrames timeBetweenFrames duration i =
     (case capture_at w i of
        Throws \<Rightarrow> []
      | Painted imageData imageUrl blob \<Rightarrow>
          if isEmpty imageData then []
          else [Progress (i + 1) totalFrames (frame_time i timeBetweenFrames duration)])"

definition undisturbed :: "env \<Rightarrow> bool" where
  "undisturbed w \<longleftrightarrow> \<not> cleanup_on_load w \<and> (\<forall>i p. \<not> cleanup_at w i p)"



section \<open>The second extractor (recursive frame sequence, with \<open>cancel\<close>)\<close>

datatype 'a outcome = Resolved 'a | Rejected error | Pending

text \<open>The \<open>options\<close> argument: each property is a number or absent.\<close>

record options =
  o_frameRate :: "jsnum option"
  o_maxDuration :: "jsnum option"
  o_quality :: "jsnum option"

text \<open>
  The fields of the second \<open>VideoFrameExtractor\<close>, with the suffix 2. \<open>cancelled2\<close> is
  \<open>currentExtraction.cancelled\<close>; the \<open>reject\<close> slot of \<open>currentExtraction\<close> is never
  filled, so \<open>cancel\<close> has nothing to reject. Frames and previews are data URLs.
\<close>

record extractor2 =
  video2 :: bool
  canvas2 :: bool
  frames2 :: "string list"
  previewFrames2 :: "string list"
  frameRate2 :: jsnum
  maxDuration2 :: jsnum
  quality2 :: jsnum
  isProcessing2 :: bool
  cancelled2 :: bool
  onProgress2 :: bool
  onComplete2 :: bool
  onError2 :: bool

definition cancel :: "extractor2 \<Rightarrow> extractor2" where
  "cancel e = e\<lparr>cancelled2 := True, isProcessing2 := False\<rparr>"

text \<open>\<open>this.frameRate = options.frameRate || this.frameRate\<close>, and the same for
  \<open>maxDuration\<close> and \<open>quality\<close>.\<close>

definition apply_options :: "options \<Rightarrow> extractor2 \<Rightarrow> extractor2" where
  "apply_options opts e =
     e\<lparr>frameRate2 := js_or (o_frameRate opts) (frameRate2 e),
       maxDuration2 := js_or (o_maxDuration opts) (maxDuration2 e),
       quality2 := js_or (o_quality opts) (quality2 e)\<rparr>"

text \<open>How the video element answers: \<open>canplay\<close> (or the 5 s timeout), with
  \<open>video.duration\<close>, or \<open>error\<close>. What \<open>extractFrame\<close> gives for a frame: the data URL
  (and the preview drawn from it), or the message of the error it throws.\<close>

datatype load_result = CanPlay jsnum | LoadFails

datatype frame_result = Captured string string | CaptureFails string

datatype await_point2 = InExtractFrame | InPreview | InDelay

record env2 =
  load_video :: load_result
  frame_at :: "nat \<Rightarrow> frame_result"
  cancel_on_load :: bool
  cancel_at :: "nat \<Rightarrow> await_point2 \<Rightarrow> bool"

definition interrupt2 :: "bool \<Rightarrow> extractor2 \<Rightarrow> extractor2" where
  "interrupt2 b e = (if b then cancel e else e)"

text \<open>
  \<open>extractFrameSequence\<close>: the error it throws, if any, with the extractor and the events.
  An error of \<open>extractFrame\<close> is logged and thrown again. The recursion goes on only
  while \<open>cancelled\<close> is false and \<open>startFrame < totalFrames - 1\<close>.
\<close>

partial_function (option) extractFrameSequence ::
  "env2 \<Rightarrow> nat \<Rightarrow> jsnum \<Rightarrow> jsnum \<Rightarrow> jsnum \<Rightarrow> extractor2 \<times> string list event list \<Rightarrow>
   (error option \<times> extractor2 \<times> string list event list) option" where
  "extractFrameSequence w startFrame totalFrames frameInterval duration s =
     (if js_le totalFrames (Num (real startFrame)) then Some (None, s)
      else
        let targetTime = Math_min (js_times (Num (real startFrame)) frameInterval) duration;
            e1 = interrupt2 (cancel_at w startFrame InExtractFrame) (fst s)
        in case frame_at w startFrame of
             CaptureFails m \<Rightarrow> Some (Some (FrameFailure m), e1, snd s)
           | Captured frameData preview \<Rightarrow>
               let e2 = e1\<lparr>frames2 := frames2 e1 @ [frameData]\<rparr>;
                   e3 = interrupt2 (cancel_at w startFrame InPreview) e2;
                   e4 = e3\<lparr>previewFrames2 := previewFrames2 e3 @ [preview]\<rparr>;
                   evs = (if onProgress2 e4
                          then snd s @ [Progress (startFrame + 1) totalFrames targetTime]
                          else snd s)
               in if \<not> cancelled2 e4 \<and>
                     js_lt (Num (real startFrame)) (js_minus totalFrames (Num 1))
                  then extractFrameSequence w (Suc startFrame) totalFrames frameInterval duration
                         (interrupt2 (cancel_at w startFrame InDelay) e4, evs)
                  else Some (None, e4, evs))"

declare extractFrameSequence.simps [code]

text \<open>
  \<open>extractFrames\<close> of the second extractor. After the sequence, completion and error are
  reported only if \<open>cancelled\<close> is false; otherwise the promise is never settled. The
  \<open>error\<close> handler of the video element reports without looking at \<open>cancelled\<close>; its
  message is \<open>Failed to load video:\<close> followed by the cause, kept here as
  \<open>FailedToLoadVideo\<close>.
\<close>

definition extractFrames2 ::
  "env2 \<Rightarrow> extractor2 \<Rightarrow> options \<Rightarrow>
   (string list outcome \<times> extractor2 \<times> string list event list) option" where
  "extractFrames2 w e opts =
     (if isProcessing2 e then Some (Rejected AlreadyInProgress, e, [])
      else
        let e1 = apply_options opts
                   (e\<lparr>isProcessing2 := True, frames2 := [], previewFrames2 := [],
                      cancelled2 := False\<rparr>);
            e2 = interrupt2 (cancel_on_load w) (e1\<lparr>video2 := True, canvas2 := True\<rparr>)
        in case load_video w of
             LoadFails \<Rightarrow>
               Some (Rejected FailedToLoadVideo, e2\<lparr>isProcessing2 := False\<rparr>,
                     if onError2 e2 then [Failed FailedToLoadVideo] else [])
           | CanPlay video_dur \<Rightarrow>
               let duration = Math_min video_dur (maxDuration2 e2);
                   frameInterval = js_divide (Num 1) (frameRate2 e2);
                   totalFrames = Math_ceil (js_times duration (frameRate2 e2))
               in (case extractFrameSequence w 0 totalFrames frameInterval duration (e2, []) of
                     None \<Rightarrow> None
                   | Some (None, e3, evs) \<Rightarrow>
                       if \<not> cancelled2 e3
                       then Some (Resolved (frames2 e3), e3\<lparr>isProcessing2 := False\<rparr>,
                                  if onComplete2 e3 then evs @ [Complete (frames2 e3)] else evs)
                       else Some (Pending, e3, evs)
                   | Some (Some err, e3, evs) \<Rightarrow>
                       if \<not> cancelled2 e3
                       then Some (Rejected err, e3\<lparr>isProcessing2 := False\<rparr>,
                                  if onError2 e3 then evs @ [Failed err] else evs)
                       else Some (Pending, e3\<lparr>isProcessing2 := False\<rparr>, evs)))"

text \<open>The second extractor as its constructor leaves it.\<close>

definition new_extractor2 :: extractor2 where
  "new_extractor2 = \<lparr>video2 = False, canvas2 = False, frames2 = [], previewFrames2 = [],
     frameRate2 = Num 2, maxDuration2 = Num 30, quality2 = Num (7/10), isProcessing2 = False,
     cancelled2 = False, onProgress2 = False, onComplete2 = False, onError2 = False\<rparr>"

section \<open>The server (one ffmpeg process per timestamp)\<close>

text \<open>
  \<open>extractVideoFrames\<close> takes the duration that \<open>getVideoDuration\<close> found (\<open>None\<close> is
  \<open>null\<close>) and an integer \<open>frameCount\<close> (10 by default). It has no rate and no cap.
\<close>

definition invalid_duration :: "jsnum option \<Rightarrow> bool" where
  "invalid_duration duration =
     (case duration of
        None \<Rightarrow> True
      | Some d \<Rightarrow> \<not> truthy d \<or> d = NaN \<or> js_le d (Num 0))"

text \<open>\<open>for (let i = 1; i <= frameCount; i++)
  timestamps.push(Math.min(Math.floor(interval * i), duration - 0.1))\<close>\<close>

function server_timestamps :: "int \<Rightarrow> int \<Rightarrow> jsnum \<Rightarrow> jsnum \<Rightarrow> jsnum list \<Rightarrow> jsnum list" where
  "server_timestamps i frameCount interval duration acc =
     (if i \<le> frameCount
      then server_timestamps (i + 1) frameCount interval duration
             (acc @ [Math_min (Math_floor (js_times interval (Num (of_int i))))
                       (js_minus duration (Num (1/10)))])
      else acc)"
  by pat_completeness auto
termination
  by (relation "measure (\<lambda>(i, frameCount, interval, duration, acc). nat (frameCount + 1 - i))") auto

declare server_timestamps.simps [simp del]

text \<open>
  One invocation: the process or the \<open>stat\<close> after it fails, or the output file has the
  given size. The invocations run in parallel; each pushes its record when it settles, so
  \<open>framePaths\<close> is filled in the order \<open>settle_order\<close> in which they settle.
\<close>

datatype invocation = ProcessFails | Output nat

record frameInfo =
  path_index :: nat
  frame_at_time :: jsnum
  byte_size :: nat

record server_env =
  invoke :: "nat \<Rightarrow> invocation"
  settle_order :: "nat list"

definition settle :: "server_env \<Rightarrow> jsnum list \<Rightarrow> frameInfo list \<Rightarrow> nat \<Rightarrow> frameInfo list" where
  "settle w stamps framePaths index =
     (case invoke w index of
        ProcessFails \<Rightarrow> framePaths
      | Output sz \<Rightarrow>
          if 0 < sz
          then framePaths @ [\<lparr>path_index = index + 1, frame_at_time = stamps ! index,
                             byte_size = sz\<rparr>]
          else framePaths)"

definition extractVideoFrames ::
  "server_env \<Rightarrow> jsnum option \<Rightarrow> int \<Rightarrow> error + frameInfo list" where
  "extractVideoFrames w duration frameCount =
     (case duration of
        None \<Rightarrow> Inl (FailedToExtractFrames InvalidVideoDuration)
      | Some d \<Rightarrow>
          if invalid_duration (Some d) then Inl (FailedToExtractFrames InvalidVideoDuration)
          else
            let interval = js_divide d (Num (of_int (frameCount + 1)));
                stamps = server_timestamps 1 frameCount interval d [];
                framePaths = foldl (settle w stamps) [] (settle_order w)
            in if framePaths = [] then Inl (FailedToExtractFrames NoValidFrames)
               else Inr framePaths)"

section \<open>Example surroundings\<close>

text \<open>A one-pixel canvas that is painted white at every index and never interrupted; a
  video element that plays for one second, with every frame captured and no \<open>cancel\<close>.\<close>

definition calm :: env where
  "calm = \<lparr>capture_at = (\<lambda>i. Painted [255, 255, 255, 255] ''url'' (Some ''blob'')),
            cleanup_on_load = False, cleanup_at = (\<lambda>i p. False)\<rparr>"

definition calm2 :: env2 where
  "calm2 = \<lparr>load_video = CanPlay (Num 1), frame_at = (\<lambda>i. Captured ''frame'' ''preview''),
             cancel_on_load = False, cancel_at = (\<lambda>i p. False)\<rparr>"

definition no_options :: options where
  "no_options = \<lparr>o_frameRate = None, o_maxDuration = None, o_quality = None\<rparr>"

text \<open>The same canvas, but black (unpainted) at index 0.\<close>

definition black_first :: env where
  "black_first = \<lparr>capture_at = (\<lambda>i. if i = 0 then Painted [0, 0, 0, 0] ''url'' (Some ''blob'')
                                      else Painted [255, 255, 255, 255] ''url'' (Some ''blob'')),
            cleanup_on_load = False, cleanup_at = (\<lambda>i p. False)\<rparr>"






section \<open>The timestamp plan of the first extractor\<close>

lemma less_nat_ceiling: "real i < T \<longleftrightarrow> i < nat \<lceil>T\<rceil>"
proof -
  have "real i < T \<longleftrightarrow> int i < \<lceil>T\<rceil>" by (simp add: less_ceiling_iff)
  also have "\<dots> \<longleftrightarrow> i < nat \<lceil>T\<rceil>" by (simp add: zless_nat_eq_int_zless)
  finally show ?thesis .
qed

text \<open>With a finite bound the loop exits, after \<open>\<lceil>totalFrames\<rceil>\<close> iterations.\<close>

lemma timestamps_loop_Num:
  "timestamps_loop i (Num T) tbf dur acc =
     Some (acc @ map (\<lambda>k. frame_time k tbf dur) [i..<nat \<lceil>T\<rceil>])"
proof (induction "nat \<lceil>T\<rceil> - i" arbitrary: i acc)
  case 0
  then have ge: "\<not> i < nat \<lceil>T\<rceil>" by linarith
  then have "\<not> real i < T" using less_nat_ceiling[of i T] by blast
  with ge show ?case by (subst timestamps_loop.simps) simp
next
  case (Suc n)
  then have lt: "i < nat \<lceil>T\<rceil>" by linarith
  then have r: "real i < T" using less_nat_ceiling[of i T] by blast
  from Suc have "n = nat \<lceil>T\<rceil> - Suc i" by linarith
  from Suc.hyps(1)[OF this] r lt show ?case
    by (subst timestamps_loop.simps) (simp add: upt_conv_Cons)
qed

lemma total_pos:
  assumes "0 < d" "0 < frameRate e" "0 < maxDuration e"
  shows "0 < total e d"
proof -
  have "0 < effective e d * frameRate e" using assms by (simp add: effective_def)
  then have "0 < \<lceil>effective e d * frameRate e\<rceil>" by (simp add: less_ceiling_iff)
  then have "0 < real_of_int \<lceil>effective e d * frameRate e\<rceil>" by simp
  moreover have "0 < frameRate e * maxDuration e" using assms by simp
  ultimately show ?thesis by (simp add: total_def)
qed

text \<open>The cap \<open>frameRate * maxDuration\<close> may make \<open>totalFrames\<close> fractional, but never
  changes the number of iterations.\<close>

lemma ceiling_total:
  assumes "0 < frameRate e"
  shows "\<lceil>total e d\<rceil> = \<lceil>effective e d * frameRate e\<rceil>"
proof (cases "of_int \<lceil>effective e d * frameRate e\<rceil> \<le> frameRate e * maxDuration e")
  case True
  then show ?thesis by (simp add: total_def)
next
  case False
  then have t: "total e d = frameRate e * maxDuration e" by (simp add: total_def)
  have "effective e d * frameRate e \<le> frameRate e * maxDuration e"
    using assms by (simp add: effective_def mult.commute)
  then have "\<lceil>effective e d * frameRate e\<rceil> \<le> \<lceil>frameRate e * maxDuration e\<rceil>"
    by (rule ceiling_mono)
  moreover have "\<lceil>frameRate e * maxDuration e\<rceil> \<le> \<lceil>effective e d * frameRate e\<rceil>"
    using False by (simp add: ceiling_le_iff)
  ultimately show ?thesis using t by simp
qed

lemma loadVideo_Num:
  assumes "loads v" "video_duration v = Num d" "0 < d" "0 < frameRate e" "0 < maxDuration e"
  shows "loadVideo e v = Inr (Num (effective e d), Num (total e d))"
proof -
  have a: "Math_min (video_duration v) (Num (maxDuration e)) = Num (effective e d)"
    using assms(2) by (simp add: effective_def)
  have b: "Math_min (Math_ceil (js_times (Num (effective e d)) (Num (frameRate e))))
             (js_times (Num (frameRate e)) (Num (maxDuration e))) = Num (total e d)"
    by (simp add: total_def)
  have c: "\<not> total e d \<le> 0" using total_pos[OF assms(3-5)] by simp
  show ?thesis unfolding loadVideo_def Let_def a b using assms(1) c by simp
qed













section \<open>Starting a run while one is active\<close>

text \<open>
  Claim C9. In both extractors, \<open>extractFrames\<close> on an extractor whose \<open>isProcessing\<close>
  flag is set fails with the error \<open>Extraction already in progress\<close>, fires no event and
  leaves the extractor exactly as it was.
\<close>

theorem already_in_progress:
  "(isProcessing e \<longrightarrow> extractFrames w e v = Some (Inl AlreadyInProgress, e, [])) \<and>
   (isProcessing2 e' \<longrightarrow> extractFrames2 w' e' opts = Some (Rejected AlreadyInProgress, e', [])) \<and>
   message AlreadyInProgress = ''Extraction already in progress''"
  by (simp add: extractFrames_def extractFrames2_def)

theorem already_in_progress_witness:
  "isProcessing (new_extractor\<lparr>isProcessing := True\<rparr>) \<and>
   extractFrames calm (new_extractor\<lparr>isProcessing := True\<rparr>)
       \<lparr>loads = True, video_duration = Num 1\<rparr> =
     Some (Inl AlreadyInProgress, new_extractor\<lparr>isProcessing := True\<rparr>, []) \<and>
   isProcessing2 (new_extractor2\<lparr>isProcessing2 := True\<rparr>) \<and>
   extractFrames2 calm2 (new_extractor2\<lparr>isProcessing2 := True\<rparr>) no_options =
     Some (Rejected AlreadyInProgress, new_extractor2\<lparr>isProcessing2 := True\<rparr>, [])"
  using already_in_progress[of "new_extractor\<lparr>isProcessing := True\<rparr>" calm
      "\<lparr>loads = True, video_duration = Num 1\<rparr>" "new_extractor2\<lparr>isProcessing2 := True\<rparr>"
      calm2 no_options]
  by (simp add: new_extractor_def new_extractor2_def)

section \<open>Options of the second extractor\<close>

text \<open>
  Claim C10. An option \<open>frameRate\<close>, \<open>maxDuration\<close> or \<open>quality\<close> that is 0 is ignored: the
  extractor keeps the value it had. So no option can set one of the three to 0: if it is
  0 after the options are applied, it was 0 before.
\<close>

theorem zero_option_ignored:
  "(o_frameRate opts = Some (Num 0) \<longrightarrow> frameRate2 (apply_options opts e) = frameRate2 e) \<and>
   (o_maxDuration opts = Some (Num 0) \<longrightarrow> maxDuration2 (apply_options opts e) = maxDuration2 e) \<and>
   (o_quality opts = Some (Num 0) \<longrightarrow> quality2 (apply_options opts e) = quality2 e) \<and>
   (frameRate2 (apply_options opts e) = Num 0 \<longrightarrow> frameRate2 e = Num 0) \<and>
   (maxDuration2 (apply_options opts e) = Num 0 \<longrightarrow> maxDuration2 e = Num 0) \<and>
   (quality2 (apply_options opts e) = Num 0 \<longrightarrow> quality2 e = Num 0)"
proof -
  have "js_or x b = Num 0 \<Longrightarrow> b = Num 0" for x b
    by (cases x) (auto split: if_splits)
  then show ?thesis by (auto simp: apply_options_def)
qed

theorem zero_option_ignored_witness:
  "o_frameRate \<lparr>o_frameRate = Some (Num 0), o_maxDuration = Some (Num 0),
                o_quality = Some (Num 0)\<rparr> = Some (Num 0) \<and>
   frameRate2 (apply_options \<lparr>o_frameRate = Some (Num 0), o_maxDuration = Some (Num 0),
                 o_quality = Some (Num 0)\<rparr> new_extractor2) = Num 2 \<and>
   maxDuration2 (apply_options \<lparr>o_frameRate = Some (Num 0), o_maxDuration = Some (Num 0),
                 o_quality = Some (Num 0)\<rparr> new_extractor2) = Num 30 \<and>
   quality2 (apply_options \<lparr>o_frameRate = Some (Num 0), o_maxDuration = Some (Num 0),
                 o_quality = Some (Num 0)\<rparr> new_extractor2) = Num (7/10)"
  using zero_option_ignored[of "\<lparr>o_frameRate = Some (Num 0), o_maxDuration = Some (Num 0),
                 o_quality = Some (Num 0)\<rparr>" new_extractor2]
  by (simp add: new_extractor2_def)

section \<open>The timestamps of the server\<close>





section \<open>Degenerate durations\<close>

lemma interrupt_fields [simp]:
  "frameRate (interrupt b e) = frameRate e"
  "maxDuration (interrupt b e) = maxDuration e"
  "onProgress (interrupt b e) = onProgress e"
  "onComplete (interrupt b e) = onComplete e"
  "onError (interrupt b e) = onError e"
  by (simp_all add: interrupt_def cleanup_def)


lemma loadVideo_degenerate:
  assumes "loads v" "video_duration v = Num d"
    and "d \<le> 0 \<and> 0 < frameRate e \<and> 0 < maxDuration e \<or> \<lceil>effective e d * frameRate e\<rceil> \<le> 0"
  shows "loadVideo e v = Inl InvalidDurationOrFrameCount"
proof -
  have "\<lceil>effective e d * frameRate e\<rceil> \<le> 0"
  proof (rule disjE[OF assms(3)])
    assume a: "d \<le> 0 \<and> 0 < frameRate e \<and> 0 < maxDuration e"
    then have "effective e d \<le> 0" by (simp add: effective_def)
    then have "effective e d * frameRate e \<le> 0" using a by (simp add: mult_le_0_iff)
    then show ?thesis by (simp add: ceiling_le_iff)
  qed
  then have "total e d \<le> 0" by (simp add: total_def min_le_iff_disj)
  moreover have a: "Math_min (video_duration v) (Num (maxDuration e)) = Num (effective e d)"
    using assms(2) by (simp add: effective_def)
  moreover have b: "Math_min (Math_ceil (js_times (Num (effective e d)) (Num (frameRate e))))
             (js_times (Num (frameRate e)) (Num (maxDuration e))) = Num (total e d)"
    by (simp add: total_def)
  ultimately show ?thesis unfolding loadVideo_def Let_def a b using assms(1) by simp
qed

lemma invalid_duration_iff:
  "invalid_duration duration \<longleftrightarrow>
     duration = None \<or> duration = Some NaN \<or> duration = Some NegInfinity \<or>
     (\<exists>x. duration = Some (Num x) \<and> x \<le> 0)"
proof (cases duration)
  case None
  then show ?thesis by (simp add: invalid_duration_def)
next
  case (Some d)
  then show ?thesis by (cases d) (auto simp: invalid_duration_def)
qed

text \<open>
  Claim C7, as the code has it. A finite duration \<open>d \<le> 0\<close> (with rate and cap positive),
  and more generally every finite duration with \<open>ceil(effectiveDuration * rate) \<le> 0\<close>,
  makes \<open>loadVideo\<close> reject with the one error \<open>Invalid video duration or frame
  count\<close>: the run fails with it before the loop is entered, fires no event but the error
  event, and ends with no frames. The server rejects a duration that is \<open>null\<close>, NaN, zero
  or negative with \<open>Invalid video duration\<close> before any process is started.
\<close>

theorem degenerate_duration_rejected:
  assumes "\<not> isProcessing e" "loads v" "video_duration v = Num d"
    and "d \<le> 0 \<and> 0 < frameRate e \<and> 0 < maxDuration e \<or> \<lceil>effective e d * frameRate e\<rceil> \<le> 0"
    and "duration = None \<or> duration = Some NaN \<or> (\<exists>x. duration = Some (Num x) \<and> x \<le> 0)"
  shows "(\<exists>e'. extractFrames w e v =
               Some (Inl InvalidDurationOrFrameCount, e',
                     if onError e then [Failed InvalidDurationOrFrameCount] else []) \<and>
             frames e' = [] \<and> previewFrames e' = [] \<and> \<not> isProcessing e') \<and>
         extractVideoFrames sw duration frameCount = Inl (FailedToExtractFrames InvalidVideoDuration)"
proof -
  let ?e2 = "interrupt (cleanup_on_load w) (e\<lparr>isProcessing := True, frames := [], previewFrames := []\<rparr>)"
  have "effective ?e2 d = effective e d" by (simp add: effective_def)
  with assms(4) have "loadVideo ?e2 v = Inl InvalidDurationOrFrameCount"
    using loadVideo_degenerate[OF assms(2,3), of ?e2] by simp
  then have "extractFrames w e v =
               Some (Inl InvalidDurationOrFrameCount, cleanup ?e2,
                     if onError e then [Failed InvalidDurationOrFrameCount] else [])"
    using assms(1) by (simp add: extractFrames_def Let_def)
  moreover have "frames (cleanup ?e2) = [] \<and> previewFrames (cleanup ?e2) = [] \<and>
      \<not> isProcessing (cleanup ?e2)"
    by (simp add: cleanup_def)
  moreover have "invalid_duration duration" using assms(5) invalid_duration_iff by blast
  then have "extractVideoFrames sw duration frameCount =
      Inl (FailedToExtractFrames InvalidVideoDuration)"
    by (cases duration) (simp_all add: extractVideoFrames_def)
  ultimately show ?thesis by blast
qed

theorem degenerate_duration_rejected_witness:
  "\<not> isProcessing new_extractor \<and> loads \<lparr>loads = True, video_duration = Num 0\<rparr> \<and>
   video_duration \<lparr>loads = True, video_duration = Num 0\<rparr> = Num 0 \<and>
   ((0::real) \<le> 0 \<and> 0 < frameRate new_extractor \<and> 0 < maxDuration new_extractor) \<and>
   (\<exists>e'. extractFrames calm new_extractor \<lparr>loads = True, video_duration = Num 0\<rparr> =
            Some (Inl InvalidDurationOrFrameCount, e', []) \<and> frames e' = []) \<and>
   extractVideoFrames \<lparr>invoke = (\<lambda>i. Output 1), settle_order = [0]\<rparr> (Some (Num 0)) 10 =
     Inl (FailedToExtractFrames InvalidVideoDuration)"
  using degenerate_duration_rejected[of new_extractor "\<lparr>loads = True, video_duration = Num 0\<rparr>" 0
      "Some (Num 0)" calm "\<lparr>invoke = (\<lambda>i. Output 1), settle_order = [0]\<rparr>" 10]
  by (simp add: new_extractor_def) blast

text \<open>
  A duration of \<open>+Infinity\<close> is not rejected: it is capped to the 30 s and 60 frames are
  planned. With a duration of NaN every comparison is false: nothing is rejected, the loop
  is not entered, and the run completes with no frames and no error.
\<close>

theorem degenerate_duration_rejected_counterexample:
  "loadVideo new_extractor \<lparr>loads = True, video_duration = Infinity\<rparr> = Inr (Num 30, Num 60) \<and>
   map_option (map_sum id length)
     (timestamps new_extractor \<lparr>loads = True, video_duration = Infinity\<rparr>) = Some (Inr 60) \<and>
   extractFrames calm (new_extractor\<lparr>onComplete := True, onError := True\<rparr>)
       \<lparr>loads = True, video_duration = NaN\<rparr> =
     Some (Inr [], new_extractor\<lparr>onComplete := True, onError := True\<rparr>, [Complete []])"
  by (simp add: loadVideo_def timestamps_def new_extractor_def timestamps_loop_Num
      extractFrames_def frame_loop.simps calm_def interrupt_def cleanup_def)

section \<open>Runs of the first extractor without interruption\<close>

lemma isEmpty_iff: "isEmpty imageData \<longleftrightarrow> (\<forall>c\<in>set imageData. c = 0)"
  by (auto simp: isEmpty_def list_ex_iff)

lemma iteration_events:
  "snd (iteration w i T tbf dur (e, evs)) =
     evs @ (if onProgress e then progress_of w T tbf dur i else [])"
  by (simp add: iteration_def progress_of_def Let_def split: capture.splits option.splits)

lemma iteration_undisturbed:
  assumes "\<forall>p. \<not> cleanup_at w i p"
  shows "iteration w i T tbf dur (e, evs) =
     (e\<lparr>frames := frames e @ file_of w i,
        previewFrames := previewFrames e @ preview_of w tbf dur i\<rparr>,
      evs @ (if onProgress e then progress_of w T tbf dur i else []))"
  using assms
  by (simp add: iteration_def progress_of_def preview_of_def file_of_def interrupt_def Let_def
      split: capture.splits option.splits)

lemma frame_loop_undisturbed:
  assumes "\<forall>i p. \<not> cleanup_at w i p" "isProcessing e"
  shows "frame_loop w i (Num T) tbf dur (e, evs) =
     Some (e\<lparr>frames := frames e @ concat (map (file_of w) [i..<nat \<lceil>T\<rceil>]),
             previewFrames := previewFrames e @ concat (map (preview_of w tbf dur) [i..<nat \<lceil>T\<rceil>])\<rparr>,
           evs @ (if onProgress e
                  then concat (map (progress_of w (Num T) tbf dur) [i..<nat \<lceil>T\<rceil>]) else []))"
  using assms(2)
proof (induction "nat \<lceil>T\<rceil> - i" arbitrary: i e evs)
  case 0
  then have ge: "\<not> i < nat \<lceil>T\<rceil>" by linarith
  then have "\<not> real i < T" using less_nat_ceiling[of i T] by blast
  with ge show ?case by (subst frame_loop.simps) simp
next
  case (Suc n)
  then have lt: "i < nat \<lceil>T\<rceil>" by linarith
  then have r: "real i < T" using less_nat_ceiling[of i T] by blast
  from Suc have n: "n = nat \<lceil>T\<rceil> - Suc i" by linarith
  have it: "iteration w i (Num T) tbf dur (e, evs) =
     (e\<lparr>frames := frames e @ file_of w i,
        previewFrames := previewFrames e @ preview_of w tbf dur i\<rparr>,
      evs @ (if onProgress e then progress_of w (Num T) tbf dur i else []))"
    using assms(1) by (simp add: iteration_undisturbed)
  show ?case
    using Suc.prems r lt
    by (subst frame_loop.simps) (simp add: it Suc.hyps(1)[OF n] upt_conv_Cons)
qed


lemma extractFrames_undisturbed:
  assumes "undisturbed w" "\<not> isProcessing e" "loads v" "video_duration v = Num d"
    and "0 < d" "0 < frameRate e" "0 < maxDuration e"
  shows "extractFrames w e v =
     Some (Inr (concat (map (preview_of w (Num (effective e d / total e d)) (Num (effective e d)))
                  [0..<nat \<lceil>effective e d * frameRate e\<rceil>])),
           cleanup e,
           (if onProgress e
            then concat (map (progress_of w (Num (total e d)) (Num (effective e d / total e d))
                                (Num (effective e d)))
                   [0..<nat \<lceil>effective e d * frameRate e\<rceil>])
            else []) @
           (if onComplete e
            then [Complete (concat (map (preview_of w (Num (effective e d / total e d))
                                           (Num (effective e d)))
                             [0..<nat \<lceil>effective e d * frameRate e\<rceil>]))]
            else []))"
proof -
  let ?e1 = "e\<lparr>isProcessing := True, frames := [], previewFrames := []\<rparr>"
  let ?e3 = "?e1\<lparr>currentVideo := True, currentCanvas := True, currentCtx := True\<rparr>"
  have q: "\<forall>i p. \<not> cleanup_at w i p" and l: "\<not> cleanup_on_load w"
    using assms(1) by (simp_all add: undisturbed_def)
  have lv: "loadVideo ?e1 v = Inr (Num (effective e d), Num (total e d))"
    using loadVideo_Num[OF assms(3,4,5), of ?e1] assms(6,7)
    by (simp add: effective_def total_def)
  have nz: "total e d \<noteq> 0" using total_pos[OF assms(5-7)] by simp
  let ?n = "nat \<lceil>effective e d * frameRate e\<rceil>"
  let ?tbf = "Num (effective e d / total e d)" and ?dur = "Num (effective e d)"
  have loop: "frame_loop w 0 (Num (total e d)) ?tbf ?dur (?e3, []) =
      Some (?e3\<lparr>frames := concat (map (file_of w) [0..<?n]),
                previewFrames := concat (map (preview_of w ?tbf ?dur) [0..<?n])\<rparr>,
            if onProgress e
            then concat (map (progress_of w (Num (total e d)) ?tbf ?dur) [0..<?n]) else [])"
    by (simp add: frame_loop_undisturbed[OF q] ceiling_total[OF assms(6)])
  show ?thesis
    using assms(2) l nz
    by (simp add: extractFrames_def Let_def interrupt_def lv loop cleanup_def)
qed


lemma progress_of_cases:
  "progress_of w T tbf dur i =
     (if preview_of w tbf dur i = [] then [] else [Progress (i + 1) T (frame_time i tbf dur)])"
  by (simp add: progress_of_def preview_of_def split: capture.splits)

lemma frame_time_Num:
  "frame_time i (Num s) (Num D) = Num (min (real i * s) (D - 1/10))"
  by (simp add: frame_time_def)

text \<open>
  Claim C4, as the code has it. In a run that is not interrupted, with a progress callback
  set, the progress events are, in index order, one event \<open>{current: i + 1, total:
  totalFrames, time}\<close> for each planned index \<open>i\<close> whose capture gave a frame that is
  not empty, and none for an index whose frame was empty or whose capture threw; the
  completion event follows. In any run, an iteration adds exactly that event or nothing.
\<close>

theorem progress_after_usable_capture:
  assumes "undisturbed w" "\<not> isProcessing e" "loads v" "video_duration v = Num d"
    and "0 < d" "0 < frameRate e" "0 < maxDuration e" "onProgress e"
  shows "(\<exists>fs e'. extractFrames w e v =
           Some (Inr fs, e',
                 concat (map (\<lambda>i. case capture_at w i of
                                  Throws \<Rightarrow> []
                                | Painted imageData imageUrl blob \<Rightarrow>
                                    if isEmpty imageData then []
                                    else [Progress (i + 1) (Num (total e d))
                                            (Num (min (real i * (effective e d / total e d))
                                                      (effective e d - 1/10)))])
                          [0..<nat \<lceil>effective e d * frameRate e\<rceil>]) @
                 (if onComplete e then [Complete fs] else []))) \<and>
         snd (iteration w' i T tbf dur (e0, evs0)) =
           evs0 @ (case capture_at w' i of
                     Throws \<Rightarrow> []
                   | Painted imageData imageUrl blob \<Rightarrow>
                       if isEmpty imageData \<or> \<not> onProgress e0 then []
                       else [Progress (i + 1) T (frame_time i tbf dur)])"
proof -
  have "progress_of w (Num (total e d)) (Num (effective e d / total e d)) (Num (effective e d)) =
        (\<lambda>i. case capture_at w i of
                 Throws \<Rightarrow> []
               | Painted imageData imageUrl blob \<Rightarrow>
                   if isEmpty imageData then []
                   else [Progress (i + 1) (Num (total e d))
                           (Num (min (real i * (effective e d / total e d))
                                     (effective e d - 1/10)))])"
    by (rule ext) (simp add: progress_of_def frame_time_Num split: capture.splits)
  then have "\<exists>fs e'. extractFrames w e v =
           Some (Inr fs, e',
                 concat (map (\<lambda>i. case capture_at w i of
                                  Throws \<Rightarrow> []
                                | Painted imageData imageUrl blob \<Rightarrow>
                                    if isEmpty imageData then []
                                    else [Progress (i + 1) (Num (total e d))
                                            (Num (min (real i * (effective e d / total e d))
                                                      (effective e d - 1/10)))])
                          [0..<nat \<lceil>effective e d * frameRate e\<rceil>]) @
                 (if onComplete e then [Complete fs] else []))"
    using extractFrames_undisturbed[OF assms(1-7)] assms(8) by simp
  moreover have "snd (iteration w' i T tbf dur (e0, evs0)) =
           evs0 @ (case capture_at w' i of
                     Throws \<Rightarrow> []
                   | Painted imageData imageUrl blob \<Rightarrow>
                       if isEmpty imageData \<or> \<not> onProgress e0 then []
                       else [Progress (i + 1) T (frame_time i tbf dur)])"
    by (simp add: iteration_events progress_of_def split: capture.splits)
  ultimately show ?thesis by blast
qed

theorem progress_after_usable_capture_witness:
  "undisturbed black_first \<and> \<not> isProcessing (new_extractor\<lparr>onProgress := True\<rparr>) \<and>
   onProgress (new_extractor\<lparr>onProgress := True\<rparr>) \<and>
   (\<exists>fs e'. extractFrames black_first (new_extractor\<lparr>onProgress := True\<rparr>)
              \<lparr>loads = True, video_duration = Num 1\<rparr> =
            Some (Inr fs, e', [Progress 2 (Num 2) (Num (1/2))]))"
  using progress_after_usable_capture[of black_first "new_extractor\<lparr>onProgress := True\<rparr>"
      "\<lparr>loads = True, video_duration = Num 1\<rparr>" 1]
  by (simp add: undisturbed_def black_first_def new_extractor_def effective_def total_def upt_rec
      isEmpty_def) (simp add: numeral_2_eq_2)

text \<open>
  Two planned frames, the first one black: the only progress event is the one for the
  second index.
\<close>

theorem progress_after_usable_capture_counterexample:
  "extractFrames black_first (new_extractor\<lparr>onProgress := True, onComplete := True\<rparr>)
       \<lparr>loads = True, video_duration = Num 1\<rparr> =
     Some (Inr [\<lparr>url = ''url'', time = Num (1/2)\<rparr>],
           new_extractor\<lparr>onProgress := True, onComplete := True\<rparr>,
           [Progress 2 (Num 2) (Num (1/2)), Complete [\<lparr>url = ''url'', time = Num (1/2)\<rparr>]])"
  by (simp add: extractFrames_def loadVideo_def new_extractor_def black_first_def interrupt_def
      cleanup_def frame_loop.simps iteration_def frame_time_def isEmpty_def Let_def)


lemma length_concat_le:
  assumes "\<And>i. length (f i) \<le> 1"
  shows "length (concat (map f [0..<n])) \<le> n"
proof (induction n)
  case 0
  then show ?case by simp
next
  case (Suc n)
  then show ?case using assms[of n] by simp
qed

lemma length_concat_less:
  assumes "\<And>i. length (f i) \<le> 1" "k < n" "f k = []"
  shows "length (concat (map f [0..<n])) < n"
  using assms(2)
proof (induction n)
  case 0
  then show ?case by simp
next
  case (Suc n)
  show ?case
  proof (cases "k = n")
    case True
    then show ?thesis using length_concat_le[of f n, OF assms(1)] assms(3) by simp
  next
    case False
    with Suc have "length (concat (map f [0..<n])) < n" by simp
    then show ?thesis using assms(1)[of n] by simp
  qed
qed

lemma length_preview_of: "length (preview_of w tbf dur i) \<le> 1"
  by (simp add: preview_of_def split: capture.splits)

text \<open>
  Claim C6. A pixel buffer is empty exactly when every channel value in it is zero. An
  iteration that reads an empty buffer adds no preview frame, no file and no event. In a
  run that is not interrupted the result holds, in index order, one record for each index
  whose frame was painted and not empty: each index is attempted once, the result is never
  longer than the plan, and it is shorter as soon as one frame was empty. On the server an
  output file of size zero adds no record either.
\<close>

theorem empty_frame_skipped:
  assumes "undisturbed w" "\<not> isProcessing e" "loads v" "video_duration v = Num d"
    and "0 < d" "0 < frameRate e" "0 < maxDuration e"
  shows "(isEmpty imageData \<longleftrightarrow> (\<forall>channel\<in>set imageData. channel = 0)) \<and>
         (capture_at w' i = Painted imageData imageUrl blob \<longrightarrow> isEmpty imageData \<longrightarrow>
            iteration w' i T tbf dur (e0, evs0) = (interrupt (cleanup_at w' i AtSeek) e0, evs0)) \<and>
         (\<exists>fs e' evs. extractFrames w e v = Some (Inr fs, e', evs) \<and>
            fs = concat (map (\<lambda>i. case capture_at w i of
                                  Throws \<Rightarrow> []
                                | Painted imageData imageUrl blob \<Rightarrow>
                                    if isEmpty imageData then []
                                    else [\<lparr>url = imageUrl,
                                           time = Num (min (real i * (effective e d / total e d))
                                                           (effective e d - 1/10))\<rparr>])
                          [0..<nat \<lceil>effective e d * frameRate e\<rceil>]) \<and>
            length fs \<le> nat \<lceil>effective e d * frameRate e\<rceil> \<and>
            ((\<exists>k<nat \<lceil>effective e d * frameRate e\<rceil>. \<exists>px u b.
                 capture_at w k = Painted px u b \<and> isEmpty px) \<longrightarrow>
               length fs < nat \<lceil>effective e d * frameRate e\<rceil>)) \<and>
         (invoke sw k = Output 0 \<longrightarrow> settle sw stamps framePaths k = framePaths)"
proof -
  let ?n = "nat \<lceil>effective e d * frameRate e\<rceil>"
  let ?f = "preview_of w (Num (effective e d / total e d)) (Num (effective e d))"
  have f: "?f = (\<lambda>i. case capture_at w i of
                                  Throws \<Rightarrow> []
                                | Painted imageData imageUrl blob \<Rightarrow>
                                    if isEmpty imageData then []
                                    else [\<lparr>url = imageUrl,
                                           time = Num (min (real i * (effective e d / total e d))
                                                           (effective e d - 1/10))\<rparr>])"
    by (rule ext) (simp add: preview_of_def frame_time_Num split: capture.splits)
  have 1: "isEmpty imageData \<longleftrightarrow> (\<forall>channel\<in>set imageData. channel = 0)"
    by (rule isEmpty_iff)
  have 2: "capture_at w' i = Painted imageData imageUrl blob \<longrightarrow> isEmpty imageData \<longrightarrow>
            iteration w' i T tbf dur (e0, evs0) = (interrupt (cleanup_at w' i AtSeek) e0, evs0)"
    by (simp add: iteration_def)
  have le: "length (concat (map ?f [0..<?n])) \<le> ?n"
    by (rule length_concat_le) (rule length_preview_of)
  have less: "length (concat (map ?f [0..<?n])) < ?n"
    if "k < ?n" "capture_at w k = Painted px u b" "isEmpty px" for k px u b
  proof (rule length_concat_less[of ?f k])
    show "length (?f i) \<le> 1" for i by (rule length_preview_of)
    show "k < ?n" by (rule that(1))
    show "?f k = []" using that(2,3) by (simp add: preview_of_def)
  qed
  have 3: "\<exists>fs e' evs. extractFrames w e v = Some (Inr fs, e', evs) \<and>
            fs = concat (map ?f [0..<?n]) \<and> length fs \<le> ?n \<and>
            ((\<exists>k<?n. \<exists>px u b. capture_at w k = Painted px u b \<and> isEmpty px) \<longrightarrow>
               length fs < ?n)"
    using extractFrames_undisturbed[OF assms] le less by blast
  have 4: "invoke sw k = Output 0 \<longrightarrow> settle sw stamps framePaths k = framePaths"
    by (simp add: settle_def)
  from 1 2 3 4 show ?thesis unfolding f by blast
qed


theorem empty_frame_skipped_witness:
  "undisturbed black_first \<and> \<not> isProcessing new_extractor \<and>
   loads \<lparr>loads = True, video_duration = Num 1\<rparr> \<and> (0::real) < 1 \<and>
   0 < frameRate new_extractor \<and> 0 < maxDuration new_extractor \<and>
   isEmpty [0, 0, 0, 0] \<and>
   (\<exists>fs e' evs. extractFrames black_first new_extractor \<lparr>loads = True, video_duration = Num 1\<rparr>
                   = Some (Inr fs, e', evs) \<and> length fs < 2)"
proof -
  let ?v = "\<lparr>loads = True, video_duration = Num 1\<rparr>"
  have h: "undisturbed black_first" "\<not> isProcessing new_extractor" "loads ?v"
      "video_duration ?v = Num 1" "(0::real) < 1" "0 < frameRate new_extractor"
      "0 < maxDuration new_extractor"
    by (simp_all add: undisturbed_def black_first_def new_extractor_def)
  have n: "nat \<lceil>effective new_extractor 1 * frameRate new_extractor\<rceil> = 2"
    by (simp add: effective_def new_extractor_def)
  have black: "\<exists>k<2. \<exists>px u b. capture_at black_first k = Painted px u b \<and> isEmpty px"
    by (rule exI[of _ 0]) (simp add: black_first_def isEmpty_def)
  have "isEmpty [0, 0, 0, 0]" by (simp add: isEmpty_def)
  moreover have "\<exists>fs e' evs. extractFrames black_first new_extractor ?v = Some (Inr fs, e', evs) \<and>
      length fs < 2"
  proof -
    from empty_frame_skipped[OF h, THEN conjunct2, THEN conjunct2, THEN conjunct1]
    obtain fs e' evs where a: "extractFrames black_first new_extractor ?v = Some (Inr fs, e', evs)"
      and b: "(\<exists>k<2. \<exists>px u b. capture_at black_first k = Painted px u b \<and> isEmpty px) \<longrightarrow>
               length fs < 2"
      unfolding n by blast
    from b black have "length fs < 2" by blast
    with a show ?thesis by blast
  qed
  ultimately show ?thesis using h by blast
qed

section \<open>Problems with single frames\<close>




















section \<open>Cancellation\<close>













end
